theory Spec2Isabelle
  imports Complex_Main "HOL-Library.AList"
begin

section \<open>Python values\<close>

text \<open>
  The program of \<^verbatim>\<open>scripts/load.py\<close> works on the values that \<^verbatim>\<open>json.load\<close> produces:
  \<^verbatim>\<open>None\<close>, booleans, integers, floats, strings, lists and dicts with string keys.
  A float is represented by the exact rational value of a finite double (the
  extensions \<^verbatim>\<open>NaN\<close> and \<^verbatim>\<open>Infinity\<close> of \<^verbatim>\<open>json.load\<close> are not represented).  A string
  is a list of code points below 256.  A dict is an association list in insertion
  order; Python keeps one entry per key.
\<close>

datatype json =
    JNull
  | JBool bool
  | JInt int
  | JFloat rat
  | JStr string
  | JList "json list"
  | JObj "(string \<times> json) list"

type_synonym pydict = "(string \<times> json) list"

datatype request_exception = ConnectionError | Timeout | HTTPError int | JSONDecodeError

datatype exn =
    RequestException request_exception
  | ValueError
  | TypeError
  | AttributeError
  | ZeroDivisionError
  | OverflowError

text \<open>Truth value testing: \<^verbatim>\<open>not x\<close> is \<open>\<not> truthy x\<close>.\<close>

fun truthy :: "json \<Rightarrow> bool" where
  "truthy JNull = False"
| "truthy (JBool b) = b"
| "truthy (JInt i) = (i \<noteq> 0)"
| "truthy (JFloat q) = (q \<noteq> 0)"
| "truthy (JStr s) = (s \<noteq> [])"
| "truthy (JList xs) = (xs \<noteq> [])"
| "truthy (JObj d) = (d \<noteq> [])"

text \<open>\<^verbatim>\<open>d.get(k)\<close> and \<^verbatim>\<open>d.get(k, default)\<close>.\<close>

definition py_get_default :: "pydict \<Rightarrow> string \<Rightarrow> json \<Rightarrow> json" where
  "py_get_default d k dflt = (case map_of d k of None \<Rightarrow> dflt | Some v \<Rightarrow> v)"

definition py_get :: "pydict \<Rightarrow> string \<Rightarrow> json" where
  "py_get d k = py_get_default d k JNull"

text \<open>\<^verbatim>\<open>k in d\<close> for a dict \<open>d\<close> and a string \<open>k\<close>.\<close>

definition has_key :: "pydict \<Rightarrow> string \<Rightarrow> bool" where
  "has_key d k = (map_of d k \<noteq> None)"

text \<open>
  The numeric value of a number; \<^verbatim>\<open>bool\<close> is a subclass of \<^verbatim>\<open>int\<close> with
  \<^verbatim>\<open>True == 1\<close> and \<^verbatim>\<open>False == 0\<close>.
\<close>

fun num_of :: "json \<Rightarrow> rat option" where
  "num_of (JBool b) = Some (if b then 1 else 0)"
| "num_of (JInt i) = Some (of_int i)"
| "num_of (JFloat q) = Some q"
| "num_of _ = None"

text \<open>
  \<^verbatim>\<open>a == b\<close>.  Numbers compare by value, lists element by element, dicts as
  mappings: equal sizes, and every key of the left one is bound to an equal value
  in the right one.
\<close>

fun py_eq :: "json \<Rightarrow> json \<Rightarrow> bool"
  and py_eq_list :: "json list \<Rightarrow> json list \<Rightarrow> bool"
  and py_has_item :: "string \<Rightarrow> json \<Rightarrow> pydict \<Rightarrow> bool"
  and py_sub_dict :: "pydict \<Rightarrow> pydict \<Rightarrow> bool" where
  "py_eq JNull b = (b = JNull)"
| "py_eq (JStr s) b = (b = JStr s)"
| "py_eq (JList xs) b = (case b of JList ys \<Rightarrow> py_eq_list xs ys | _ \<Rightarrow> False)"
| "py_eq (JObj d) b = (case b of JObj e \<Rightarrow> length d = length e \<and> py_sub_dict d e | _ \<Rightarrow> False)"
| "py_eq (JBool x) b = (num_of b = Some (if x then 1 else 0))"
| "py_eq (JInt i) b = (num_of b = Some (of_int i))"
| "py_eq (JFloat q) b = (num_of b = Some q)"
| "py_eq_list [] ys = (ys = [])"
| "py_eq_list (x # xs) ys = (case ys of [] \<Rightarrow> False | y # ys' \<Rightarrow> py_eq x y \<and> py_eq_list xs ys')"
| "py_has_item k v [] = False"
| "py_has_item k v (p # e) = ((fst p = k \<and> py_eq v (snd p)) \<or> py_has_item k v e)"
| "py_sub_dict [] e = True"
| "py_sub_dict (p # d) e = (py_has_item (fst p) (snd p) e \<and> py_sub_dict d e)"

text \<open>\<^verbatim>\<open>x <= n\<close> for an integer literal \<open>n\<close>: only numbers are ordered against it.\<close>

fun py_le_int :: "json \<Rightarrow> int \<Rightarrow> exn + bool" where
  "py_le_int (JInt i) n = Inr (i \<le> n)"
| "py_le_int (JBool b) n = Inr ((if b then 1 else 0) \<le> n)"
| "py_le_int (JFloat q) n = Inr (q \<le> of_int n)"
| "py_le_int _ n = Inl TypeError"

text \<open>\<^verbatim>\<open>t in s\<close> for two strings: \<open>t\<close> occurs in \<open>s\<close> as a contiguous block.\<close>

fun is_substring :: "string \<Rightarrow> string \<Rightarrow> bool" where
  "is_substring t [] = (t = [])"
| "is_substring t (c # cs) = (take (length t) (c # cs) = t \<or> is_substring t cs)"

text \<open>
  \<^verbatim>\<open>x in c\<close>.  A list is searched with \<^verbatim>\<open>==\<close>, a string accepts only a string, a
  dict is searched by key and needs a hashable \<open>x\<close>, and every other container
  raises \<^verbatim>\<open>TypeError\<close>.
\<close>

definition py_in_list :: "json \<Rightarrow> json list \<Rightarrow> bool" where
  "py_in_list x xs = list_ex (py_eq x) xs"

fun hashable :: "json \<Rightarrow> bool" where
  "hashable (JList xs) = False"
| "hashable (JObj d) = False"
| "hashable _ = True"

fun py_in :: "json \<Rightarrow> json \<Rightarrow> exn + bool" where
  "py_in x (JList xs) = Inr (py_in_list x xs)"
| "py_in x (JStr s) = (case x of JStr t \<Rightarrow> Inr (is_substring t s) | _ \<Rightarrow> Inl TypeError)"
| "py_in x (JObj d) =
     (if hashable x then Inr (list_ex (\<lambda>p. py_eq x (JStr (fst p))) d) else Inl TypeError)"
| "py_in x _ = Inl TypeError"

subsection \<open>Strings to integers\<close>

text \<open>
  \<^verbatim>\<open>int(s)\<close> for a string: surrounding whitespace (the code points 9 to 13, 32,
  133 and 160) is dropped, one sign is allowed,
  then decimal digits, single underscores allowed between digits; a string of more
  than 4300 digits is refused (the interpreter's default limit).  Failure is
  \<^verbatim>\<open>ValueError\<close>, here \<open>None\<close>.
\<close>

definition py_isspace :: "char \<Rightarrow> bool" where
  "py_isspace c = (of_char c \<in> set [9, 10, 11, 12, 13, 32, 133, 160 :: nat])"

definition is_digit :: "char \<Rightarrow> bool" where
  "is_digit c = (c \<in> set ''0123456789'')"

definition py_strip :: "string \<Rightarrow> string" where
  "py_strip s = rev (dropWhile py_isspace (rev (dropWhile py_isspace s)))"

fun int_body :: "string \<Rightarrow> bool" where
  "int_body [] = False"
| "int_body [c] = is_digit c"
| "int_body (c # d # cs) =
     (is_digit c \<and> (if d = CHR ''_'' then int_body cs else int_body (d # cs)))"

definition digits_value :: "string \<Rightarrow> int" where
  "digits_value ds = foldl (\<lambda>a c. 10 * a + (int (of_char c) - 48)) 0 ds"

definition int_max_str_digits :: nat where
  "int_max_str_digits = 4300"

definition py_int :: "string \<Rightarrow> int option" where
  "py_int s =
     (let t = py_strip s;
          negative = (take 1 t = ''-'');
          body = (if take 1 t = ''-'' \<or> take 1 t = ''+'' then drop 1 t else t);
          ds = filter is_digit body
      in if int_body body \<and> length ds \<le> int_max_str_digits
         then Some (if negative then - digits_value ds else digits_value ds)
         else None)"

text \<open>\<^verbatim>\<open>s.split(sep)\<close> for a one-character separator.\<close>

fun split_on :: "char \<Rightarrow> string \<Rightarrow> string list" where
  "split_on sep [] = [[]]"
| "split_on sep (c # cs) =
     (if c = sep then [] # split_on sep cs
      else (case split_on sep cs of [] \<Rightarrow> [[c]] | p # ps \<Rightarrow> (c # p) # ps))"

text \<open>
  \<^verbatim>\<open>a / b\<close> on integers: the float result is never used by the program, only
  whether the division raises.  It raises \<^verbatim>\<open>ZeroDivisionError\<close> for a zero
  divisor and \<^verbatim>\<open>OverflowError\<close> when the correctly rounded quotient is beyond the
  largest double.
\<close>

definition py_truediv_error :: "int \<Rightarrow> int \<Rightarrow> exn option" where
  "py_truediv_error a b =
     (if b = 0 then Some ZeroDivisionError
      else if (2 ^ 1024 - 2 ^ 970) * \<bar>b\<bar> \<le> \<bar>a\<bar> then Some OverflowError
      else None)"

section \<open>The environment\<close>

text \<open>
  The program talks to the Shopify server, sleeps, and reads and writes the progress
  file.  The server is a function from the number of the request (counting from 0)
  to what \<^verbatim>\<open>requests.post\<close> does for it: raise a \<^verbatim>\<open>RequestException\<close>, or deliver
  a response.  Of a response the program reads the status code, two headers and the
  body (\<open>None\<close> when the body is not JSON, so that \<^verbatim>\<open>response.json()\<close> raises).
\<close>

record headers =
  x_shopify_shop_api_call_limit :: "string option"
  retry_after_header :: "string option"

record response =
  status_code :: int
  headers :: headers
  body :: "json option"

datatype outcome = Raises request_exception | Responds response

type_synonym server = "nat \<Rightarrow> outcome"

text \<open>
  The progress file \<^verbatim>\<open>data/upload_progress.json\<close>: absent, present with content
  that cannot be read as JSON, or present with a JSON value.
\<close>

datatype pfile = NoFile | Unparseable | Parsed json

text \<open>
  What the world sees of a run: the requests posted (endpoint and JSON payload), the
  sleeps (in seconds) and the error line printed for a rejected request.  Other
  console output is not part of the model.
\<close>

datatype event = Posted string json | Slept rat | PrintedApiError int

record world =
  posted :: nat
  trace :: "event list"
  clock :: rat
  progress_file :: pfile

definition slept :: "rat \<Rightarrow> world \<Rightarrow> world" where
  "slept d w = w\<lparr>trace := trace w @ [Slept d], clock := clock w + d\<rparr>"

text \<open>
  \<^verbatim>\<open>time.sleep(d)\<close> raises \<^verbatim>\<open>ValueError\<close> for a negative length and
  \<^verbatim>\<open>OverflowError\<close> for one that does not fit a signed 64-bit count of nanoseconds.
\<close>

definition time_sleep :: "rat \<Rightarrow> world \<Rightarrow> exn + world" where
  "time_sleep d w =
     (if d < 0 then Inl ValueError
      else if 2 ^ 63 - 1 < d * 10 ^ 9 then Inl OverflowError
      else Inr (slept d w))"

section \<open>Rate limiter\<close>

text \<open>
  \<^verbatim>\<open>current, max_limit = map(int, rate_limit_header.split('/'))\<close>: exactly two
  parts, both integers; anything else is a \<^verbatim>\<open>ValueError\<close>, here \<open>None\<close>.
\<close>

definition parse_call_limit :: "string \<Rightarrow> (int \<times> int) option" where
  "parse_call_limit rate_limit_header =
     (case split_on CHR ''/'' rate_limit_header of
        [a, b] \<Rightarrow>
          (case py_int a of
             None \<Rightarrow> None
           | Some current \<Rightarrow>
               (case py_int b of None \<Rightarrow> None | Some max_limit \<Rightarrow> Some (current, max_limit)))
      | _ \<Rightarrow> None)"

definition check_rate_limit_and_wait :: "headers \<Rightarrow> world \<Rightarrow> (exn + int \<times> int) \<times> world" where
  "check_rate_limit_and_wait response_headers w =
     (let rate_limit_header =
            (case x_shopify_shop_api_call_limit response_headers of None \<Rightarrow> ''0/40'' | Some h \<Rightarrow> h)
      in case parse_call_limit rate_limit_header of
           None \<Rightarrow> (Inr (0, 40), slept (1 / 2) w)
         | Some (current, max_limit) \<Rightarrow>
             (case py_truediv_error current max_limit of
                Some e \<Rightarrow> (Inl e, w)
              | None \<Rightarrow>
                  (let wait_time =
                         (if 35 \<le> current then 2
                          else if 30 \<le> current then 1
                          else if 20 \<le> current then 1 / 2
                          else 1 / 10)
                   in (Inr (current, max_limit), slept wait_time w))))"

section \<open>Upload client\<close>

text \<open>
  One pass through the body of the attempt loop of \<^verbatim>\<open>upload_to_shopify\<close> ends in
  one of four ways.
\<close>

datatype signal = Continue | Break | Return json | Raise exn

text \<open>
  The \<^verbatim>\<open>try\<close> block: the request, then the branches on the status code.
  \<^verbatim>\<open>raise_for_status\<close> raises \<^verbatim>\<open>HTTPError\<close> for a status from 400 to 599, and
  \<^verbatim>\<open>response.json()\<close> raises the \<^verbatim>\<open>JSONDecodeError\<close> of \<^verbatim>\<open>requests\<close> (version
  2.27 and later) for a body that is not JSON; both are \<^verbatim>\<open>RequestException\<close>s.
  A request counts as posted also when \<^verbatim>\<open>requests.post\<close> raises.
\<close>

definition try_block :: "server \<Rightarrow> string \<Rightarrow> pydict \<Rightarrow> world \<Rightarrow> signal \<times> world" where
  "try_block net endpoint data w =
     (let w1 = w\<lparr>posted := posted w + 1,
                 trace := trace w @ [Posted endpoint (JObj [(butlast endpoint, JObj data)])]\<rparr>
      in case net (posted w) of
           Raises e \<Rightarrow> (Raise (RequestException e), w1)
         | Responds response \<Rightarrow>
             if status_code response = 429 then
               (case (case retry_after_header (headers response) of None \<Rightarrow> Some 5 | Some s \<Rightarrow> py_int s) of
                  None \<Rightarrow> (Raise ValueError, w1)
                | Some retry_after \<Rightarrow>
                    (case time_sleep (of_int retry_after) w1 of
                       Inl e \<Rightarrow> (Raise e, w1)
                     | Inr w2 \<Rightarrow> (Continue, w2)))
             else
               (case (if status_code response = 200
                      then (case check_rate_limit_and_wait (headers response) w1 of
                              (Inl e, w2) \<Rightarrow> (Some e, w2)
                            | (Inr _, w2) \<Rightarrow> (None, w2))
                      else (None, w1)) of
                  (Some e, w2) \<Rightarrow> (Raise e, w2)
                | (None, w2) \<Rightarrow>
                    if 400 \<le> status_code response then
                      (let w3 = w2\<lparr>trace := trace w2 @ [PrintedApiError (status_code response)]\<rparr>
                       in if status_code response < 600
                          then (Raise (RequestException (HTTPError (status_code response))), w3)
                          else (case body response of
                                  None \<Rightarrow> (Raise (RequestException JSONDecodeError), w3)
                                | Some j \<Rightarrow> (Return j, w3)))
                    else (case body response of
                            None \<Rightarrow> (Raise (RequestException JSONDecodeError), w2)
                          | Some j \<Rightarrow> (Return j, w2))))"

text \<open>The handler \<^verbatim>\<open>except requests.exceptions.RequestException as e\<close>.\<close>

definition on_request_exception ::
  "request_exception \<Rightarrow> int \<Rightarrow> int \<Rightarrow> nat \<Rightarrow> nat \<Rightarrow> world \<Rightarrow> signal \<times> world" where
  "on_request_exception e max_retries max_retry_cycles cycle attempt w =
     (if int attempt < max_retries - 1 then
        (case time_sleep (2 ^ attempt) w of
           Inl x \<Rightarrow> (Raise x, w)
         | Inr w1 \<Rightarrow> (Continue, w1))
      else if int cycle < max_retry_cycles - 1 then (Break, slept 10 w)
      else (Raise (RequestException e), w))"

definition attempt_body ::
  "server \<Rightarrow> string \<Rightarrow> pydict \<Rightarrow> int \<Rightarrow> int \<Rightarrow> nat \<Rightarrow> nat \<Rightarrow> world \<Rightarrow> signal \<times> world" where
  "attempt_body net endpoint data max_retries max_retry_cycles cycle attempt w =
     (case try_block net endpoint data w of
        (Raise (RequestException e), w1) \<Rightarrow>
          on_request_exception e max_retries max_retry_cycles cycle attempt w1
      | (s, w1) \<Rightarrow> (s, w1))"

text \<open>
  \<^verbatim>\<open>for attempt in range(max_retries)\<close>, over the attempts still to run.  The loop
  is left by \<^verbatim>\<open>return\<close> or \<^verbatim>\<open>raise\<close>, or it is over (by \<^verbatim>\<open>break\<close> or after its
  last attempt) and the cycle loop goes on.
\<close>

datatype loop_end = Over | Returned json | Raised exn

fun attempts ::
  "server \<Rightarrow> string \<Rightarrow> pydict \<Rightarrow> int \<Rightarrow> int \<Rightarrow> nat \<Rightarrow> nat list \<Rightarrow> world \<Rightarrow> loop_end \<times> world" where
  "attempts net endpoint data max_retries max_retry_cycles cycle [] w = (Over, w)"
| "attempts net endpoint data max_retries max_retry_cycles cycle (attempt # rest) w =
     (case attempt_body net endpoint data max_retries max_retry_cycles cycle attempt w of
        (Continue, w1) \<Rightarrow> attempts net endpoint data max_retries max_retry_cycles cycle rest w1
      | (Break, w1) \<Rightarrow> (Over, w1)
      | (Return j, w1) \<Rightarrow> (Returned j, w1)
      | (Raise e, w1) \<Rightarrow> (Raised e, w1))"

definition py_range :: "int \<Rightarrow> nat list" where
  "py_range n = [0..<nat n]"

text \<open>
  \<^verbatim>\<open>for cycle in range(max_retry_cycles)\<close>.  When the last cycle is over the function
  body ends without a \<^verbatim>\<open>return\<close> statement: the call returns \<^verbatim>\<open>None\<close>, here
  \<open>Inr None\<close>, while a returned response body \<open>j\<close> is \<open>Inr (Some j)\<close>.
\<close>

fun cycles ::
  "server \<Rightarrow> string \<Rightarrow> pydict \<Rightarrow> int \<Rightarrow> int \<Rightarrow> nat list \<Rightarrow> world \<Rightarrow> (exn + json option) \<times> world" where
  "cycles net endpoint data max_retries max_retry_cycles [] w = (Inr None, w)"
| "cycles net endpoint data max_retries max_retry_cycles (cycle # rest) w =
     (case attempts net endpoint data max_retries max_retry_cycles cycle (py_range max_retries) w of
        (Over, w1) \<Rightarrow> cycles net endpoint data max_retries max_retry_cycles rest w1
      | (Returned j, w1) \<Rightarrow> (Inr (Some j), w1)
      | (Raised e, w1) \<Rightarrow> (Inl e, w1))"

text \<open>
  \<^verbatim>\<open>upload_to_shopify(endpoint, data, max_retries=3, max_retry_cycles=5)\<close>.  The
  debugging block before the loops compares \<^verbatim>\<open>data.get('woo_order_id', 0)\<close> with 3,
  which raises for a value that is not a number.
\<close>

definition upload_to_shopify ::
  "server \<Rightarrow> string \<Rightarrow> pydict \<Rightarrow> int \<Rightarrow> int \<Rightarrow> world \<Rightarrow> (exn + json option) \<times> world" where
  "upload_to_shopify net endpoint data max_retries max_retry_cycles w =
     (case py_le_int (py_get_default data ''woo_order_id'' (JInt 0)) 3 of
        Inl e \<Rightarrow> (Inl e, w)
      | Inr _ \<Rightarrow> cycles net endpoint data max_retries max_retry_cycles (py_range max_retry_cycles) w)"

section \<open>Progress store\<close>

text \<open>
  \<^verbatim>\<open>load_completed_orders()\<close>: no file gives the empty list; so does every exception
  while reading, which covers unreadable content and a JSON value without a
  \<^verbatim>\<open>get\<close> method.  Otherwise the result is whatever the key
  \<^verbatim>\<open>completed_orders\<close> holds, with the empty list as default.
\<close>

definition load_completed_orders :: "world \<Rightarrow> json" where
  "load_completed_orders w =
     (case progress_file w of
        NoFile \<Rightarrow> JList []
      | Unparseable \<Rightarrow> JList []
      | Parsed data \<Rightarrow>
          (case data of
             JObj d \<Rightarrow> py_get_default d ''completed_orders'' (JList [])
           | _ \<Rightarrow> JList []))"

text \<open>
  \<^verbatim>\<open>save_completed_order(woo_order_id)\<close>.  The file system is taken to work:
  creating the directory and writing the file do not fail.  \<^verbatim>\<open>append\<close> exists on
  lists only.  The time stamp is the reading of the clock.
\<close>

definition save_completed_order :: "json \<Rightarrow> world \<Rightarrow> exn + world" where
  "save_completed_order woo_order_id w =
     (let completed_orders = load_completed_orders w
      in case py_in woo_order_id completed_orders of
           Inl e \<Rightarrow> Inl e
         | Inr True \<Rightarrow> Inr w
         | Inr False \<Rightarrow>
             (case completed_orders of
                JList xs \<Rightarrow>
                  Inr (w\<lparr>progress_file :=
                           Parsed (JObj [(''completed_orders'', JList (xs @ [woo_order_id])),
                                         (''last_updated'', JFloat (clock w))])\<rparr>)
              | _ \<Rightarrow> Inl AttributeError))"

definition clear_progress :: "world \<Rightarrow> world" where
  "clear_progress w = w\<lparr>progress_file := NoFile\<rparr>"

section \<open>Batch orchestrator\<close>

text \<open>\<^verbatim>\<open>len(x)\<close>: strings, lists and dicts have a length.\<close>

fun py_len :: "json \<Rightarrow> exn + nat" where
  "py_len (JStr s) = Inr (length s)"
| "py_len (JList xs) = Inr (length xs)"
| "py_len (JObj d) = Inr (length d)"
| "py_len _ = Inl TypeError"

text \<open>
  The body of \<^verbatim>\<open>for item in batch\<close>, a \<^verbatim>\<open>try\<close> block whose handler
  \<^verbatim>\<open>except Exception\<close> prints and goes on with the next item.  It takes and returns
  the counter \<open>successes\<close> and the world.
\<close>

definition process_item ::
  "server \<Rightarrow> string \<Rightarrow> json \<Rightarrow> pydict \<Rightarrow> nat \<times> world \<Rightarrow> nat \<times> world" where
  "process_item net endpoint completed_orders item sw =
     (case sw of (successes, w) \<Rightarrow>
        (case (if endpoint = ''orders''
               then py_in (py_get item ''woo_order_id'') completed_orders
               else Inr False) of
           Inl e \<Rightarrow> (successes, w)
         | Inr True \<Rightarrow> (successes + 1, w)
         | Inr False \<Rightarrow>
             if endpoint = ''customers'' \<and> \<not> truthy (py_get item ''email'') then (successes, w)
             else
               (case upload_to_shopify net endpoint item 3 5 w of
                  (Inl e, w1) \<Rightarrow> (successes, w1)
                | (Inr result, w1) \<Rightarrow>
                    if endpoint = ''orders'' \<and> truthy (py_get item ''woo_order_id'') then
                      (case save_completed_order (py_get item ''woo_order_id'') w1 of
                         Inl e \<Rightarrow> (successes, w1)
                       | Inr w2 \<Rightarrow> (successes + 1, w2))
                    else (successes + 1, w1))))"

fun upload_batch ::
  "server \<Rightarrow> string \<Rightarrow> json \<Rightarrow> pydict list \<Rightarrow> nat \<times> world \<Rightarrow> nat \<times> world" where
  "upload_batch net endpoint completed_orders [] sw = sw"
| "upload_batch net endpoint completed_orders (item # batch) sw =
     upload_batch net endpoint completed_orders batch
       (process_item net endpoint completed_orders item sw)"

fun upload_batches ::
  "server \<Rightarrow> string \<Rightarrow> json \<Rightarrow> pydict list list \<Rightarrow> nat \<times> world \<Rightarrow> nat \<times> world" where
  "upload_batches net endpoint completed_orders [] sw = sw"
| "upload_batches net endpoint completed_orders (batch # rest) sw =
     upload_batches net endpoint completed_orders rest
       (upload_batch net endpoint completed_orders batch sw)"

text \<open>
  The slices \<^verbatim>\<open>items[i:i + batch_size]\<close> for \<^verbatim>\<open>i in range(0, total_items, batch_size)\<close>
  with a positive step.
\<close>

definition batches :: "'a list \<Rightarrow> nat \<Rightarrow> 'a list list" where
  "batches items batch_size =
     map (\<lambda>k. take batch_size (drop (k * batch_size) items))
       [0..<(length items + batch_size - 1) div batch_size]"

text \<open>
  \<^verbatim>\<open>batch_upload(endpoint, items, batch_size=5, resume_mode=False)\<close>.  In resume mode
  the summary line takes \<^verbatim>\<open>len(completed_orders)\<close>.  \<^verbatim>\<open>range\<close> raises
  \<^verbatim>\<open>ValueError\<close> for the step 0 and is empty for a negative step.
\<close>

definition batch_upload ::
  "server \<Rightarrow> string \<Rightarrow> pydict list \<Rightarrow> int \<Rightarrow> bool \<Rightarrow> world \<Rightarrow> (exn + nat) \<times> world" where
  "batch_upload net endpoint items batch_size resume_mode w =
     (let completed_orders =
            (if endpoint = ''orders'' \<and> resume_mode then load_completed_orders w else JList [])
      in case py_len completed_orders of
           Inl e \<Rightarrow> (Inl e, w)
         | Inr n \<Rightarrow>
             if batch_size = 0 then (Inl ValueError, w)
             else if batch_size < 0 then (Inr 0, w)
             else
               (case upload_batches net endpoint completed_orders
                       (batches items (nat batch_size)) (0, w) of
                  (successes, w') \<Rightarrow> (Inr successes, w')))"

section \<open>Phone normalizer\<close>

text \<open>
  \<^verbatim>\<open>format_phone_e164(phone)\<close> for the values a phone field holds: \<^verbatim>\<open>None\<close> or a
  string, which \<^verbatim>\<open>str\<close> leaves as it is.  On code points below 256 the pattern
  \<^verbatim>\<open>[^\d]\<close> matches everything but the ten decimal digits.
\<close>

definition format_phone_e164 :: "string option \<Rightarrow> string option" where
  "format_phone_e164 phone =
     (case phone of
        None \<Rightarrow> None
      | Some s \<Rightarrow>
          if s = [] then None
          else
            (let digits_only = filter is_digit s
             in if length digits_only = 10 then Some (''+1'' @ digits_only)
                else if length digits_only = 11 \<and> take 1 digits_only = ''1''
                  then Some (''+'' @ digits_only)
                else if 10 \<le> length digits_only then Some (''+'' @ digits_only)
                else None))"

section \<open>Order sanitizer\<close>

text \<open>
  \<^verbatim>\<open>fix_order_data_for_shopify(order)\<close> receives a reference to a dict, assigns to
  it and deletes from it, and returns the same reference or \<^verbatim>\<open>None\<close>.  The store
  maps every reference to the dict it stands for; the function returns its result
  together with the store it leaves.  The comparison of
  \<^verbatim>\<open>order.get('woo_order_id', 0)\<close> with 5 guards debugging output and raises for a
  value that is not a number; the later ones repeat it on the same value.
\<close>

type_synonym ref = nat

type_synonym store = "ref \<Rightarrow> pydict"

definition fix_order_data_for_shopify :: "ref \<Rightarrow> store \<Rightarrow> exn + (ref option \<times> store)" where
  "fix_order_data_for_shopify order h =
     (if py_eq (py_get (h order) ''financial_status'') (JStr ''voided'') then Inr (None, h)
      else
        (case py_le_int (py_get_default (h order) ''woo_order_id'' (JInt 0)) 5 of
           Inl e \<Rightarrow> Inl e
         | Inr _ \<Rightarrow>
             (let h1 =
                (if py_eq (py_get (h order) ''financial_status'') (JStr ''paid'') then
                   (if \<not> truthy (py_get (h order) ''processed_at'') then
                      h(order := AList.update ''processed_at'' (py_get (h order) ''created_at'')
                                   (h order))
                    else if truthy (py_get (h order) ''processed_at'') then
                      (if py_in_list (py_get (h order) ''processed_at'')
                            [JNull, JStr [], JStr ''null'']
                       then h(order := AList.update ''processed_at''
                                         (py_get (h order) ''created_at'') (h order))
                       else h)
                    else h)
                 else
                   (if has_key (h order) ''processed_at''
                    then h(order := AList.delete ''processed_at'' (h order))
                    else h))
              in if \<not> truthy (py_get (h1 order) ''email'') then Inr (None, h1)
                 else Inr (Some order, h1))))"

section \<open>Properties of the rate limiter\<close>

lemma slept_inject: "slept d w = slept d' w \<longleftrightarrow> d = d'"
  by (auto simp: slept_def dest: arg_cong [where f = trace])

lemmas py_int_eval =
  py_int_def py_strip_def py_isspace_def is_digit_def digits_value_def int_max_str_digits_def

text \<open>
  C10.  The rate limiter is not total over header strings.  For a header
  \<^verbatim>\<open>c/m\<close> whose two parts are integers and whose second part is zero,
  \<^verbatim>\<open>check_rate_limit_and_wait\<close> raises \<^verbatim>\<open>ZeroDivisionError\<close> (before any sleep): such
  a header parses, and the fallback, which sleeps half a second and answers
  \<^verbatim>\<open>(0, 40)\<close>, is taken exactly by the headers that fail to parse as two integers.
\<close>

theorem rate_limiter_zero_max_raises:
  assumes "split_on CHR ''/'' h = [a, b]" and "py_int a = Some c" and "py_int b = Some 0"
  shows "check_rate_limit_and_wait (hs\<lparr>x_shopify_shop_api_call_limit := Some h\<rparr>) w
           = (Inl ZeroDivisionError, w)
         \<and> parse_call_limit h \<noteq> None
         \<and> (\<forall>h'. check_rate_limit_and_wait (hs\<lparr>x_shopify_shop_api_call_limit := Some h'\<rparr>) w
                    = (Inr (0, 40), slept (1 / 2) w)
                  \<longleftrightarrow> parse_call_limit h' = None)"
proof -
  have parsed: "parse_call_limit h = Some (c, 0)"
    using assms by (simp add: parse_call_limit_def)
  have raises: "check_rate_limit_and_wait (hs\<lparr>x_shopify_shop_api_call_limit := Some h\<rparr>) w
                  = (Inl ZeroDivisionError, w)"
    by (simp add: check_rate_limit_and_wait_def parsed py_truediv_error_def)
  have fallback: "check_rate_limit_and_wait (hs\<lparr>x_shopify_shop_api_call_limit := Some h'\<rparr>) w
                    = (Inr (0, 40), slept (1 / 2) w) \<longleftrightarrow> parse_call_limit h' = None" for h'
  proof (cases "parse_call_limit h'")
    case None
    then show ?thesis by (simp add: check_rate_limit_and_wait_def)
  next
    case (Some p)
    obtain current max_limit where p: "p = (current, max_limit)" by (cases p)
    show ?thesis
      by (cases "py_truediv_error current max_limit")
         (auto simp: check_rate_limit_and_wait_def Some p Let_def slept_inject)
  qed
  show ?thesis using parsed raises fallback by simp
qed

theorem rate_limiter_zero_max_raises_witness:
  "check_rate_limit_and_wait
     \<lparr>x_shopify_shop_api_call_limit = Some ''5/0'', retry_after_header = None\<rparr>
     \<lparr>posted = 0, trace = [], clock = 0, progress_file = NoFile\<rparr>
   = (Inl ZeroDivisionError, \<lparr>posted = 0, trace = [], clock = 0, progress_file = NoFile\<rparr>)
   \<and> check_rate_limit_and_wait
     \<lparr>x_shopify_shop_api_call_limit = Some ''5/x'', retry_after_header = None\<rparr>
     \<lparr>posted = 0, trace = [], clock = 0, progress_file = NoFile\<rparr>
   = (Inr (0, 40),
      \<lparr>posted = 0, trace = [Slept (1 / 2)], clock = 1 / 2, progress_file = NoFile\<rparr>)"
proof -
  have split: "split_on CHR ''/'' ''5/0'' = [''5'', ''0'']" by simp
  have five: "py_int ''5'' = Some 5" by (simp add: py_int_eval)
  have zero: "py_int ''0'' = Some 0" by (simp add: py_int_eval)
  have bad: "parse_call_limit ''5/x'' = None"
    by (simp add: parse_call_limit_def py_int_eval)
  show ?thesis
    using rate_limiter_zero_max_raises [OF split five zero,
        of "\<lparr>x_shopify_shop_api_call_limit = None, retry_after_header = None\<rparr>"
           "\<lparr>posted = 0, trace = [], clock = 0, progress_file = NoFile\<rparr>"] bad
    by (simp add: slept_def)
qed

section \<open>Properties of the upload client\<close>

lemma py_range_3: "py_range 3 = [0, 1, 2]"
  by (simp add: py_range_def upt_conv_Cons)

lemma py_range_5: "py_range 5 = [0, 1, 2, 3, 4]"
  by (simp add: py_range_def upt_conv_Cons)

lemmas upload_eval =
  upload_to_shopify_def py_range_3 py_range_5 attempt_body_def try_block_def
  on_request_exception_def time_sleep_def slept_def py_get_default_def
  check_rate_limit_and_wait_def parse_call_limit_def py_truediv_error_def Let_def

text \<open>The backoff \<^verbatim>\<open>time.sleep(2 ** attempt)\<close> fits the clock up to attempt 33.\<close>

lemma time_sleep_backoff:
  "time_sleep (2 ^ attempt) w =
     (if attempt \<le> 33 then Inr (slept (2 ^ attempt) w) else Inl OverflowError)"
proof (cases "attempt \<le> 33")
  case True
  then have "(2::rat) ^ attempt \<le> 2 ^ 33"
    by (intro power_increasing) simp_all
  then have "(2::rat) ^ attempt * 10 ^ 9 \<le> 2 ^ 33 * 10 ^ 9"
    by simp
  also have "\<dots> \<le> 2 ^ 63 - 1" by simp
  finally have "\<not> (2 ^ 63 - 1 < (2::rat) ^ attempt * 10 ^ 9)" by simp
  then show ?thesis using True by (simp add: time_sleep_def)
next
  case False
  then have "(2::rat) ^ 34 \<le> 2 ^ attempt"
    by (intro power_increasing) simp_all
  then have "(2::rat) ^ 34 * 10 ^ 9 \<le> 2 ^ attempt * 10 ^ 9"
    by simp
  moreover have "(2::rat) ^ 63 - 1 < 2 ^ 34 * 10 ^ 9" by simp
  ultimately have "2 ^ 63 - 1 < (2::rat) ^ attempt * 10 ^ 9" by linarith
  then show ?thesis using False by (simp add: time_sleep_def)
qed

text \<open>
  C1.  The claim: \<^verbatim>\<open>upload_to_shopify\<close> either returns the parsed body of a
  successful request or raises; it never ends without a result and without an
  exception.  The code at a server that answers every request with status 429 (no
  \<^verbatim>\<open>Retry-After\<close> header), called with the default budgets of 3 attempts and 5
  cycles: after 15 requests both loops are over and the call returns \<^verbatim>\<open>None\<close>
  without raising.
\<close>

theorem upload_returns_none_when_always_rate_limited:
  "fst (upload_to_shopify
     (\<lambda>n. Responds \<lparr>status_code = 429,
             headers = \<lparr>x_shopify_shop_api_call_limit = None, retry_after_header = None\<rparr>,
             body = None\<rparr>)
     ''orders'' [(''woo_order_id'', JInt 7)] 3 5
     \<lparr>posted = 0, trace = [], clock = 0, progress_file = NoFile\<rparr>) = Inr None
   \<and> posted (snd (upload_to_shopify
     (\<lambda>n. Responds \<lparr>status_code = 429,
             headers = \<lparr>x_shopify_shop_api_call_limit = None, retry_after_header = None\<rparr>,
             body = None\<rparr>)
     ''orders'' [(''woo_order_id'', JInt 7)] 3 5
     \<lparr>posted = 0, trace = [], clock = 0, progress_file = NoFile\<rparr>)) = 15"
  by (simp add: upload_eval)

lemma attempt_body_api_error:
  assumes "net (posted w) = Responds r"
    and "400 \<le> status_code r" and "status_code r < 600" and "status_code r \<noteq> 429"
  shows "attempt_body net endpoint data max_retries max_retry_cycles cycle attempt w =
     (let w1 = w\<lparr>posted := posted w + 1,
                 trace := trace w @ [Posted endpoint (JObj [(butlast endpoint, JObj data)]),
                                     PrintedApiError (status_code r)]\<rparr>
      in if int attempt < max_retries - 1 then
           (if attempt \<le> 33 then (Continue, slept (2 ^ attempt) w1)
            else (Raise OverflowError, w1))
         else if int cycle < max_retry_cycles - 1 then (Break, slept 10 w1)
         else (Raise (RequestException (HTTPError (status_code r))), w1))"
  using assms
  by (simp add: attempt_body_def try_block_def on_request_exception_def time_sleep_backoff
      Let_def)

lemma attempts_api_error_step:
  assumes "net (posted w) = Responds r"
    and "400 \<le> status_code r" and "status_code r < 600" and "status_code r \<noteq> 429"
  shows "attempts net endpoint data max_retries max_retry_cycles cycle (attempt # rest) w =
     (let w1 = w\<lparr>posted := posted w + 1,
                 trace := trace w @ [Posted endpoint (JObj [(butlast endpoint, JObj data)]),
                                     PrintedApiError (status_code r)]\<rparr>
      in if int attempt < max_retries - 1 then
           (if attempt \<le> 33
            then attempts net endpoint data max_retries max_retry_cycles cycle rest
                   (slept (2 ^ attempt) w1)
            else (Raised OverflowError, w1))
         else if int cycle < max_retry_cycles - 1 then (Over, slept 10 w1)
         else (Raised (RequestException (HTTPError (status_code r))), w1))"
  by (simp add: attempt_body_api_error [where r = r and net = net and w = w, OF assms] Let_def)

lemma posted_slept [simp]: "posted (slept d w) = posted w"
  by (simp add: slept_def)

lemma attempts_api_errors:
  assumes all: "\<forall>n. \<exists>r. net n = Responds r \<and> status_code r = s"
    and s: "400 \<le> s" "s < 600" "s \<noteq> 429"
    and M: "M = nat max_retries" "M \<le> 34"
  shows "a < M \<Longrightarrow>
    \<exists>w'. attempts net endpoint data max_retries max_retry_cycles cycle [a..<M] w
            = (if int cycle < max_retry_cycles - 1 then Over
               else Raised (RequestException (HTTPError s)), w')
         \<and> posted w' = posted w + (M - a)"
proof (induction "M - a" arbitrary: a w)
  case 0
  then show ?case by simp
next
  case (Suc k)
  obtain r where r: "net (posted w) = Responds r" "status_code r = s"
    using all by blast
  have step: "attempts net endpoint data max_retries max_retry_cycles cycle (a # [Suc a..<M]) w =
     (let w1 = w\<lparr>posted := posted w + 1,
                 trace := trace w @ [Posted endpoint (JObj [(butlast endpoint, JObj data)]),
                                     PrintedApiError (status_code r)]\<rparr>
      in if int a < max_retries - 1 then
           (if a \<le> 33
            then attempts net endpoint data max_retries max_retry_cycles cycle [Suc a..<M]
                   (slept (2 ^ a) w1)
            else (Raised OverflowError, w1))
         else if int cycle < max_retry_cycles - 1 then (Over, slept 10 w1)
         else (Raised (RequestException (HTTPError (status_code r))), w1))"
    using r s by (intro attempts_api_error_step) simp_all
  have upt: "[a..<M] = a # [Suc a..<M]"
    using Suc.prems by (simp add: upt_conv_Cons)
  let ?w1 = "w\<lparr>posted := posted w + 1,
                 trace := trace w @ [Posted endpoint (JObj [(butlast endpoint, JObj data)]),
                                     PrintedApiError (status_code r)]\<rparr>"
  show ?case
  proof (cases "Suc a < M")
    case True
    then have lt: "int a < max_retries - 1" and le: "a \<le> 33"
      using M by auto
    have k: "k = M - Suc a" using Suc.hyps(2) by simp
    obtain w' where w': "attempts net endpoint data max_retries max_retry_cycles cycle
          [Suc a..<M] (slept (2 ^ a) ?w1)
        = (if int cycle < max_retry_cycles - 1 then Over
           else Raised (RequestException (HTTPError s)), w')"
      "posted w' = posted (slept (2 ^ a) ?w1) + (M - Suc a)"
      using Suc.hyps(1) [OF k True, of "slept (2 ^ a) ?w1"] by blast
    have "posted w' = posted w + (M - a)"
      using w'(2) True by simp
    then show ?thesis
      using step w'(1) lt le by (simp add: upt Let_def)
  next
    case False
    then have last: "Suc a = M" using Suc.prems by simp
    then have nlt: "\<not> int a < max_retries - 1"
      using M by auto
    have "[Suc a..<M] = []" using last by simp
    then show ?thesis
      using step nlt last r(2) by (auto simp: upt Let_def)
  qed
qed

lemma cycles_api_errors:
  assumes all: "\<forall>n. \<exists>r. net n = Responds r \<and> status_code r = s"
    and s: "400 \<le> s" "s < 600" "s \<noteq> 429"
    and M: "M = nat max_retries" "M \<le> 34" "0 < M"
    and C: "C = nat max_retry_cycles"
  shows "c < C \<Longrightarrow>
    \<exists>w'. cycles net endpoint data max_retries max_retry_cycles [c..<C] w
            = (Inl (RequestException (HTTPError s)), w')
         \<and> posted w' = posted w + M * (C - c)"
proof (induction "C - c" arbitrary: c w)
  case 0
  then show ?case by simp
next
  case (Suc k)
  have upt: "[c..<C] = c # [Suc c..<C]"
    using Suc.prems by (simp add: upt_conv_Cons)
  obtain w1 where w1: "attempts net endpoint data max_retries max_retry_cycles c [0..<M] w
        = (if int c < max_retry_cycles - 1 then Over
           else Raised (RequestException (HTTPError s)), w1)"
      "posted w1 = posted w + (M - 0)"
    using attempts_api_errors [OF all s M(1,2) M(3), of endpoint data max_retry_cycles c w]
    by blast
  show ?case
  proof (cases "Suc c < C")
    case True
    then have lt: "int c < max_retry_cycles - 1" using C by auto
    have k: "k = C - Suc c" using Suc.hyps(2) by simp
    obtain w' where w': "cycles net endpoint data max_retries max_retry_cycles [Suc c..<C] w1
        = (Inl (RequestException (HTTPError s)), w')"
      "posted w' = posted w1 + M * (C - Suc c)"
      using Suc.hyps(1) [OF k True, of w1] by blast
    have "M + M * (C - Suc c) = M * (C - c)"
      using True by (metis Suc_diff_Suc Suc_lessD mult_Suc_right)
    then have "posted w' = posted w + M * (C - c)"
      using w'(2) w1(2) by simp
    then show ?thesis
      using w1(1) w'(1) lt by (simp add: upt py_range_def M(1))
  next
    case False
    then have last: "Suc c = C" using Suc.prems by simp
    then have nlt: "\<not> int c < max_retry_cycles - 1" using C by auto
    have "C - c = 1" using last by simp
    then show ?thesis
      using w1 nlt by (simp add: upt py_range_def M(1))
  qed
qed

lemma py_le_int_number: "num_of x \<noteq> None \<Longrightarrow> \<exists>b. py_le_int x n = Inr b"
  by (cases x) auto

text \<open>
  C2, as amended.  When a request receives a status from 400 to 599 other than 429,
  the client prints the error line and raises \<^verbatim>\<open>HTTPError\<close> inside the \<^verbatim>\<open>try\<close>
  block, where the handler for \<^verbatim>\<open>RequestException\<close> catches it as it does a
  transport failure.  In the attempt loop: before the last attempt of a cycle the
  client sleeps \<open>2 ^ attempt\<close> seconds and the loop goes on with the remaining
  attempts; at the last attempt of a cycle that is not the last it sleeps 10
  seconds and the loop is over, so that the next cycle starts; at the last attempt
  of the last cycle the exception leaves the loop.  For the whole call: at a server
  that answers every request with such a status, \<^verbatim>\<open>upload_to_shopify\<close> posts
  \<open>max_retries * max_retry_cycles\<close> requests and then raises the \<^verbatim>\<open>HTTPError\<close> to
  its caller.
\<close>

theorem api_error_is_retried:
  assumes s: "400 \<le> s" "s < 600" "s \<noteq> 429"
  shows "(\<forall>r. net (posted w) = Responds r \<and> status_code r = s \<longrightarrow>
            attempts net endpoint data max_retries max_retry_cycles cycle (attempt # rest) w =
              (let w1 = w\<lparr>posted := posted w + 1,
                          trace := trace w @
                            [Posted endpoint (JObj [(butlast endpoint, JObj data)]),
                             PrintedApiError s]\<rparr>
               in if int attempt < max_retries - 1 then
                    (if attempt \<le> 33
                     then attempts net endpoint data max_retries max_retry_cycles cycle rest
                            (slept (2 ^ attempt) w1)
                     else (Raised OverflowError, w1))
                  else if int cycle < max_retry_cycles - 1 then (Over, slept 10 w1)
                  else (Raised (RequestException (HTTPError s)), w1)))
         \<and> ((\<forall>n. \<exists>r. net n = Responds r \<and> status_code r = s)
              \<and> 0 < max_retries \<and> max_retries \<le> 34 \<and> 0 < max_retry_cycles
              \<and> num_of (py_get_default data ''woo_order_id'' (JInt 0)) \<noteq> None \<longrightarrow>
            fst (upload_to_shopify net endpoint data max_retries max_retry_cycles w)
              = Inl (RequestException (HTTPError s))
            \<and> posted (snd (upload_to_shopify net endpoint data max_retries max_retry_cycles w))
              = posted w + nat max_retries * nat max_retry_cycles)"
    (is "?step \<and> (?always \<longrightarrow> ?raised)")
proof
  have one: "attempts net endpoint data max_retries max_retry_cycles cycle (attempt # rest) w =
              (let w1 = w\<lparr>posted := posted w + 1,
                          trace := trace w @
                            [Posted endpoint (JObj [(butlast endpoint, JObj data)]),
                             PrintedApiError s]\<rparr>
               in if int attempt < max_retries - 1 then
                    (if attempt \<le> 33
                     then attempts net endpoint data max_retries max_retry_cycles cycle rest
                            (slept (2 ^ attempt) w1)
                     else (Raised OverflowError, w1))
                  else if int cycle < max_retry_cycles - 1 then (Over, slept 10 w1)
                  else (Raised (RequestException (HTTPError s)), w1))"
    if r: "net (posted w) = Responds r" "status_code r = s" for r
  proof -
    have e: "400 \<le> status_code r" "status_code r < 600" "status_code r \<noteq> 429"
      using r s by simp_all
    show ?thesis
      using attempts_api_error_step [where r = r and net = net and w = w, OF r(1) e]
      unfolding r(2) .
  qed
  then show ?step by blast
next
  show "?always \<longrightarrow> ?raised"
  proof
    assume a: ?always
    obtain b where b: "py_le_int (py_get_default data ''woo_order_id'' (JInt 0)) 3 = Inr b"
      using a py_le_int_number by blast
    have all: "\<forall>n. \<exists>r. net n = Responds r \<and> status_code r = s"
      using a by simp
    have "max_retries \<le> 34" and "0 < max_retries"
      using a by simp_all
    then have M: "nat max_retries \<le> 34" "0 < nat max_retries"
      by linarith+
    have C: "0 < nat max_retry_cycles"
      using a by simp
    obtain w' where w': "cycles net endpoint data max_retries max_retry_cycles
          [0..<nat max_retry_cycles] w = (Inl (RequestException (HTTPError s)), w')"
        "posted w' = posted w + nat max_retries * (nat max_retry_cycles - 0)"
      using cycles_api_errors [OF all s refl M refl C, of endpoint data w]
      by blast
    have up: "upload_to_shopify net endpoint data max_retries max_retry_cycles w
        = (Inl (RequestException (HTTPError s)), w')"
      using b w'(1) by (simp add: upload_to_shopify_def py_range_def)
    show ?raised
      using up w'(2) by simp
  qed
qed

theorem api_error_is_retried_witness:
  "fst (upload_to_shopify
     (\<lambda>n. Responds \<lparr>status_code = 422,
             headers = \<lparr>x_shopify_shop_api_call_limit = None, retry_after_header = None\<rparr>,
             body = Some (JObj [(''errors'', JStr ''processed_at is invalid'')])\<rparr>)
     ''orders'' [] 3 5 \<lparr>posted = 0, trace = [], clock = 0, progress_file = NoFile\<rparr>)
   = Inl (RequestException (HTTPError 422))
   \<and> posted (snd (upload_to_shopify
     (\<lambda>n. Responds \<lparr>status_code = 422,
             headers = \<lparr>x_shopify_shop_api_call_limit = None, retry_after_header = None\<rparr>,
             body = Some (JObj [(''errors'', JStr ''processed_at is invalid'')])\<rparr>)
     ''orders'' [] 3 5 \<lparr>posted = 0, trace = [], clock = 0, progress_file = NoFile\<rparr>))
   = 15"
proof -
  have s: "(400::int) \<le> 422" "(422::int) < 600" "(422::int) \<noteq> 429"
    by simp_all
  have "(\<forall>n. \<exists>r. (\<lambda>n. Responds \<lparr>status_code = 422,
             headers = \<lparr>x_shopify_shop_api_call_limit = None, retry_after_header = None\<rparr>,
             body = Some (JObj [(''errors'', JStr ''processed_at is invalid'')])\<rparr>) n
            = Responds r \<and> status_code r = 422)
        \<and> (0::int) < 3 \<and> (3::int) \<le> 34 \<and> (0::int) < 5
        \<and> num_of (py_get_default [] ''woo_order_id'' (JInt 0)) \<noteq> None"
    by (simp add: py_get_default_def)
  with api_error_is_retried [OF s, THEN conjunct2, rule_format, of
      "\<lambda>n. Responds \<lparr>status_code = 422,
             headers = \<lparr>x_shopify_shop_api_call_limit = None, retry_after_header = None\<rparr>,
             body = Some (JObj [(''errors'', JStr ''processed_at is invalid'')])\<rparr>"
      3 5 "[]" "''orders''" "\<lparr>posted = 0, trace = [], clock = 0, progress_file = NoFile\<rparr>"]
  show ?thesis by simp
qed

text \<open>
  The claim C2 as stated fails: after a response with status 500 the call posts a
  second request and returns its body; no exception reaches the caller.
\<close>

theorem api_error_not_terminal_counterexample:
  "upload_to_shopify
     (\<lambda>n. if n = 0
          then Responds \<lparr>status_code = 500,
                 headers = \<lparr>x_shopify_shop_api_call_limit = None, retry_after_header = None\<rparr>,
                 body = None\<rparr>
          else Responds \<lparr>status_code = 201,
                 headers = \<lparr>x_shopify_shop_api_call_limit = None, retry_after_header = None\<rparr>,
                 body = Some (JObj [(''order'', JObj [(''id'', JInt 1001)])])\<rparr>)
     ''orders'' [(''woo_order_id'', JInt 7)] 3 5
     \<lparr>posted = 0, trace = [], clock = 0, progress_file = NoFile\<rparr>
   = (Inr (Some (JObj [(''order'', JObj [(''id'', JInt 1001)])])),
      \<lparr>posted = 2,
       trace = [Posted ''orders'' (JObj [(''order'', JObj [(''woo_order_id'', JInt 7)])]),
                PrintedApiError 500,
                Slept 1,
                Posted ''orders'' (JObj [(''order'', JObj [(''woo_order_id'', JInt 7)])])],
       clock = 1, progress_file = NoFile\<rparr>)"
  by (simp add: upload_eval)

text \<open>
  C3.  The claim: after a 429 response the client sleeps for the \<^verbatim>\<open>Retry-After\<close>
  value and retries the same attempt, without using up an attempt of the cycle.
  The code, with the default budgets, at a server that answers 429 with
  \<^verbatim>\<open>Retry-After: 7\<close>, then times out twice, then accepts: it sleeps 7 seconds, but
  the \<^verbatim>\<open>continue\<close> moves on to attempt 1, so the first timeout backs off
  \<open>2 ^ 1\<close> seconds and the second one already ends the cycle with the 10 second
  pause.  Had the 429 left attempt 0 to be retried, the timeouts would have backed
  off 1 and 2 seconds and the fourth request would have been the third attempt of
  the first cycle.
\<close>

theorem rate_limited_attempt_consumes_slot:
  "upload_to_shopify
     (\<lambda>n. if n = 0
          then Responds \<lparr>status_code = 429,
                 headers = \<lparr>x_shopify_shop_api_call_limit = None,
                            retry_after_header = Some ''7''\<rparr>,
                 body = None\<rparr>
          else if n < 3 then Raises Timeout
          else Responds \<lparr>status_code = 201,
                 headers = \<lparr>x_shopify_shop_api_call_limit = None, retry_after_header = None\<rparr>,
                 body = Some (JObj [(''order'', JObj [(''id'', JInt 1001)])])\<rparr>)
     ''orders'' [(''woo_order_id'', JInt 7)] 3 5
     \<lparr>posted = 0, trace = [], clock = 0, progress_file = NoFile\<rparr>
   = (Inr (Some (JObj [(''order'', JObj [(''id'', JInt 1001)])])),
      \<lparr>posted = 4,
       trace = [Posted ''orders'' (JObj [(''order'', JObj [(''woo_order_id'', JInt 7)])]),
                Slept 7,
                Posted ''orders'' (JObj [(''order'', JObj [(''woo_order_id'', JInt 7)])]),
                Slept 2,
                Posted ''orders'' (JObj [(''order'', JObj [(''woo_order_id'', JInt 7)])]),
                Slept 10,
                Posted ''orders'' (JObj [(''order'', JObj [(''woo_order_id'', JInt 7)])])],
       clock = 19, progress_file = NoFile\<rparr>)"
  by (simp add: upload_eval py_int_eval)

section \<open>Properties of the batch orchestrator\<close>

text \<open>
  C4.  The claim: an order's identifier is in the progress store if and only if the
  upload of that order succeeded.  The code on a run over the single order 7 at a
  server that answers every request with status 429: the upload client returns
  \<^verbatim>\<open>None\<close> after 15 refused requests, the orchestrator takes the return for a
  success, counts it and records 7 in the progress file.
\<close>

theorem batch_records_order_never_uploaded:
  "fst (batch_upload
     (\<lambda>n. Responds \<lparr>status_code = 429,
             headers = \<lparr>x_shopify_shop_api_call_limit = None, retry_after_header = None\<rparr>,
             body = None\<rparr>)
     ''orders'' [[(''woo_order_id'', JInt 7)]] 5 False
     \<lparr>posted = 0, trace = [], clock = 0, progress_file = NoFile\<rparr>) = Inr 1
   \<and> load_completed_orders (snd (batch_upload
     (\<lambda>n. Responds \<lparr>status_code = 429,
             headers = \<lparr>x_shopify_shop_api_call_limit = None, retry_after_header = None\<rparr>,
             body = None\<rparr>)
     ''orders'' [[(''woo_order_id'', JInt 7)]] 5 False
     \<lparr>posted = 0, trace = [], clock = 0, progress_file = NoFile\<rparr>)) = JList [JInt 7]"
  by (simp add: batch_upload_def batches_def process_item_def save_completed_order_def
      load_completed_orders_def py_get_def py_in_list_def upload_eval)

section \<open>Properties of the order sanitizer\<close>

lemma py_eq_JStr [simp]: "py_eq x (JStr s) \<longleftrightarrow> x = JStr s"
  by (cases x) auto

lemma py_eq_JNull [simp]: "py_eq x JNull \<longleftrightarrow> x = JNull"
  by (cases x) auto

lemma py_le_int_raises: "py_le_int x n = Inl e \<longleftrightarrow> num_of x = None \<and> e = TypeError"
  by (cases x) auto

lemma py_get_update: "py_get (AList.update k v d) k' = (if k' = k then v else py_get d k')"
  by (simp add: py_get_def py_get_default_def update_conv')

lemma py_get_delete: "k' \<noteq> k \<Longrightarrow> py_get (AList.delete k d) k' = py_get d k'"
  by (simp add: py_get_def py_get_default_def delete_conv')

lemma has_key_update: "has_key (AList.update k v d) k' \<longleftrightarrow> k' = k \<or> has_key d k'"
  by (simp add: has_key_def update_conv')

lemma has_key_delete: "has_key (AList.delete k d) k' \<longleftrightarrow> k' \<noteq> k \<and> has_key d k'"
  by (simp add: has_key_def delete_conv')

lemma not_has_key_py_get: "\<not> has_key d k \<Longrightarrow> py_get d k = JNull"
  by (simp add: has_key_def py_get_def py_get_default_def)

lemma truthy_has_key: "truthy (py_get d k) \<Longrightarrow> has_key d k"
  using not_has_key_py_get by fastforce

text \<open>
  C5.  The claim: a record that the sanitizer returns has a non-empty email, has
  \<^verbatim>\<open>processed_at\<close> present and not null when its \<^verbatim>\<open>financial_status\<close> is
  \<^verbatim>\<open>paid\<close>, and has no key \<^verbatim>\<open>processed_at\<close> otherwise.  The code at a paid order
  with an email and without \<^verbatim>\<open>created_at\<close>: the record is returned with
  \<^verbatim>\<open>processed_at\<close> present and null, although the comments of the function call
  the field required for a paid order and announce that required fields are not
  \<^verbatim>\<open>None\<close>.
\<close>

theorem sanitizer_returns_null_processed_at:
  "fix_order_data_for_shopify 0
     ((\<lambda>r. [])(0 := [(''financial_status'', JStr ''paid''), (''email'', JStr ''a@b.com'')]))
   = Inr (Some 0,
       (\<lambda>r. [])(0 := [(''financial_status'', JStr ''paid''), (''email'', JStr ''a@b.com''),
                      (''processed_at'', JNull)]))"
  by (simp add: fix_order_data_for_shopify_def py_get_def py_get_default_def)

text \<open>
  Everywhere else the returned record is as the claim says: the value of
  \<^verbatim>\<open>processed_at\<close> of a returned paid order is null exactly when the input's
  \<^verbatim>\<open>processed_at\<close> was falsy or \<^verbatim>\<open>"null"\<close> and its \<^verbatim>\<open>created_at\<close> was missing or
  null.
\<close>

lemma sanitizer_output_exact:
  assumes "fix_order_data_for_shopify order h = Inr (Some r, h')"
  shows "r = order
         \<and> truthy (py_get (h' r) ''email'')
         \<and> (if py_get (h' r) ''financial_status'' = JStr ''paid''
            then has_key (h' r) ''processed_at''
                 \<and> (py_get (h' r) ''processed_at'' = JNull
                      \<longleftrightarrow> (py_get (h order) ''processed_at'' = JStr ''null''
                             \<or> \<not> truthy (py_get (h order) ''processed_at''))
                          \<and> py_get (h order) ''created_at'' = JNull)
            else \<not> has_key (h' r) ''processed_at'')"
  using assms
  by (auto simp: fix_order_data_for_shopify_def Let_def py_in_list_def py_get_update
      py_get_delete has_key_update has_key_delete truthy_has_key
      split: if_splits sum.splits)





text \<open>
  C7, as amended.  For every order with \<^verbatim>\<open>financial_status == "paid"\<close> whose
  \<^verbatim>\<open>processed_at\<close> is missing, null, empty or the string \<^verbatim>\<open>"null"\<close> (and whose
  \<^verbatim>\<open>woo_order_id\<close> is absent or a number), the sanitizer sets \<^verbatim>\<open>processed_at\<close> of
  the record to the value of the order's \<^verbatim>\<open>created_at\<close>; this record is the
  sanitizer's output when its email is non-empty, and an order without email is
  excluded: there is no output.
\<close>

theorem sanitizer_paid_sets_processed_at:
  assumes paid: "py_get (h order) ''financial_status'' = JStr ''paid''"
    and unset: "map_of (h order) ''processed_at''
                  \<in> {None, Some JNull, Some (JStr []), Some (JStr ''null'')}"
    and number: "num_of (py_get_default (h order) ''woo_order_id'' (JInt 0)) \<noteq> None"
  shows "fix_order_data_for_shopify order h =
           Inr (if truthy (py_get (h order) ''email'') then Some order else None,
                h(order := AList.update ''processed_at'' (py_get (h order) ''created_at'')
                             (h order)))
         \<and> map_of (AList.update ''processed_at'' (py_get (h order) ''created_at'') (h order))
              ''processed_at'' = Some (py_get (h order) ''created_at'')"
proof -
  obtain b where b: "py_le_int (py_get_default (h order) ''woo_order_id'' (JInt 0)) 5 = Inr b"
    using number py_le_int_number by blast
  have pa: "py_get (h order) ''processed_at'' \<in> {JNull, JStr [], JStr ''null''}"
    using unset by (auto simp: py_get_def py_get_default_def)
  show ?thesis
    using paid pa
    by (auto simp: fix_order_data_for_shopify_def b Let_def py_in_list_def py_get_update
        update_conv')
qed

theorem sanitizer_paid_sets_processed_at_witness:
  "fix_order_data_for_shopify 0
     ((\<lambda>r. [])(0 := [(''woo_order_id'', JInt 1), (''financial_status'', JStr ''paid''),
                      (''processed_at'', JStr ''null''),
                      (''created_at'', JStr ''2024-01-01T00:00:00''),
                      (''email'', JStr ''a@b.com'')]))
   = Inr (Some 0,
       (\<lambda>r. [])(0 := [(''woo_order_id'', JInt 1), (''financial_status'', JStr ''paid''),
                      (''processed_at'', JStr ''2024-01-01T00:00:00''),
                      (''created_at'', JStr ''2024-01-01T00:00:00''),
                      (''email'', JStr ''a@b.com'')]))"
  using sanitizer_paid_sets_processed_at [of
      "(\<lambda>r. [])(0 := [(''woo_order_id'', JInt 1), (''financial_status'', JStr ''paid''),
                      (''processed_at'', JStr ''null''),
                      (''created_at'', JStr ''2024-01-01T00:00:00''),
                      (''email'', JStr ''a@b.com'')])" 0]
  by (simp add: py_get_def py_get_default_def)

text \<open>
  The claim C7 as stated fails: a paid order without \<^verbatim>\<open>processed_at\<close> and
  without email has no output; the sanitizer returns \<^verbatim>\<open>None\<close>.
\<close>

theorem sanitizer_paid_without_email_counterexample:
  "fix_order_data_for_shopify 0
     ((\<lambda>r. [])(0 := [(''financial_status'', JStr ''paid''),
                      (''created_at'', JStr ''2024-01-01T00:00:00'')]))
   = Inr (None,
       (\<lambda>r. [])(0 := [(''financial_status'', JStr ''paid''),
                      (''created_at'', JStr ''2024-01-01T00:00:00''),
                      (''processed_at'', JStr ''2024-01-01T00:00:00'')]))"
  by (simp add: fix_order_data_for_shopify_def py_get_def py_get_default_def)

section \<open>Properties of the phone normalizer\<close>

text \<open>
  C8.  With the characters that are not digits removed from the input, the
  normalizer gives \<^verbatim>\<open>+1\<close> and the digits when exactly 10 digits remain, \<^verbatim>\<open>+\<close> and
  the digits when 11 digits remain and the first is 1, \<^verbatim>\<open>+\<close> and the digits for
  every other count above 10, and no result for fewer than 10 digits, for the empty
  string and for \<^verbatim>\<open>None\<close>.
\<close>

theorem format_phone_e164_cases:
  "(length (filter is_digit s) = 10
      \<longrightarrow> format_phone_e164 (Some s) = Some (''+1'' @ filter is_digit s))
   \<and> (length (filter is_digit s) = 11 \<and> hd (filter is_digit s) = CHR ''1''
      \<longrightarrow> format_phone_e164 (Some s) = Some (''+'' @ filter is_digit s))
   \<and> (10 < length (filter is_digit s)
      \<longrightarrow> format_phone_e164 (Some s) = Some (''+'' @ filter is_digit s))
   \<and> (length (filter is_digit s) < 10 \<longrightarrow> format_phone_e164 (Some s) = None)
   \<and> format_phone_e164 (Some []) = None
   \<and> format_phone_e164 None = None"
  by (cases s) (auto simp: format_phone_e164_def Let_def)

theorem format_phone_e164_cases_witness:
  "format_phone_e164 (Some ''(555) 123-4567'') = Some ''+15551234567''
   \<and> format_phone_e164 (Some ''1-555-123-4567'') = Some ''+15551234567''
   \<and> format_phone_e164 (Some ''+44 20 7946 0958'') = Some ''+442079460958''
   \<and> format_phone_e164 (Some ''555-1234'') = None"
  using format_phone_e164_cases [of "''(555) 123-4567''"]
    format_phone_e164_cases [of "''1-555-123-4567''"]
    format_phone_e164_cases [of "''+44 20 7946 0958''"]
    format_phone_e164_cases [of "''555-1234''"]
  by (simp add: is_digit_def)

section \<open>Properties of the progress store\<close>

lemma py_eq_list_refl: "(\<And>x. x \<in> set xs \<Longrightarrow> py_eq x x) \<Longrightarrow> py_eq_list xs xs"
  by (induction xs) auto

lemma py_has_item_member: "(k, v) \<in> set e \<Longrightarrow> py_eq v v \<Longrightarrow> py_has_item k v e"
  by (induction e) auto

lemma py_sub_dict_subset:
  "(\<And>k v. (k, v) \<in> set d \<Longrightarrow> py_eq v v) \<Longrightarrow> set d' \<subseteq> set d \<Longrightarrow> py_sub_dict d' d"
proof (induction d')
  case Nil
  then show ?case by simp
next
  case (Cons p d')
  obtain k v where p: "p = (k, v)" by (cases p)
  with Cons.prems have "(k, v) \<in> set d" by simp
  then have "py_has_item k v d"
    using Cons.prems(1) by (blast intro: py_has_item_member)
  then show ?case using Cons p by simp
qed

lemma py_eq_refl: "py_eq x x"
proof (induction x)
  case (JList xs)
  then show ?case by (simp add: py_eq_list_refl)
next
  case (JObj d)
  have "py_sub_dict d d"
  proof (rule py_sub_dict_subset)
    fix k v assume "(k, v) \<in> set d"
    then show "py_eq v v" using JObj.IH [of "(k, v)" v] by simp
  qed simp
  then show ?case by simp
qed auto

lemma py_in_list_self: "py_in_list x (xs @ [x])"
  by (simp add: py_in_list_def py_eq_refl)

lemma load_completed_orders_written:
  "load_completed_orders (w\<lparr>progress_file :=
      Parsed (JObj [(''completed_orders'', v), (''last_updated'', t)])\<rparr>) = v"
  by (simp add: load_completed_orders_def py_get_default_def)

lemma save_completed_order_list:
  "load_completed_orders w = JList xs \<Longrightarrow>
   save_completed_order x w =
     Inr (if py_in_list x xs then w
          else w\<lparr>progress_file :=
                  Parsed (JObj [(''completed_orders'', JList (xs @ [x])),
                                (''last_updated'', JFloat (clock w))])\<rparr>)"
  by (simp add: save_completed_order_def)

lemma save_completed_order_present:
  "save_completed_order x w = Inr w' \<Longrightarrow> py_in x (load_completed_orders w') = Inr True"
  by (auto simp: save_completed_order_def Let_def load_completed_orders_written py_in_list_self
      split: sum.splits bool.splits json.splits)

lemma load_completed_orders_file:
  "progress_file w' = progress_file w \<Longrightarrow> load_completed_orders w' = load_completed_orders w"
  by (simp add: load_completed_orders_def)

text \<open>
  C9.  Recording an identifier is idempotent.  In every state of the store:
  recording an identifier that is already present changes nothing; after a
  recording that went through, recording the same identifier again changes
  nothing, whenever it happens; recording an identifier that a stored list does
  not hold appends it, so that the list holds it exactly once, also after the
  second recording; and from an absent file two recordings of one identifier leave
  the list with that identifier alone.
\<close>

theorem save_completed_order_idempotent:
  "(py_in woo_order_id (load_completed_orders w) = Inr True
      \<longrightarrow> save_completed_order woo_order_id w = Inr w)
   \<and> (\<forall>w1 w2. save_completed_order woo_order_id w = Inr w1
               \<and> progress_file w2 = progress_file w1
        \<longrightarrow> save_completed_order woo_order_id w2 = Inr w2)
   \<and> (\<forall>xs. load_completed_orders w = JList xs \<and> \<not> py_in_list woo_order_id xs
        \<longrightarrow> (\<exists>w1. save_completed_order woo_order_id w = Inr w1
                  \<and> save_completed_order woo_order_id w1 = Inr w1
                  \<and> load_completed_orders w1 = JList (xs @ [woo_order_id])
                  \<and> length (filter (py_eq woo_order_id) (xs @ [woo_order_id])) = 1))
   \<and> (progress_file w = NoFile
        \<longrightarrow> (\<exists>w1. save_completed_order woo_order_id w = Inr w1
                  \<and> save_completed_order woo_order_id w1 = Inr w1
                  \<and> load_completed_orders w1 = JList [woo_order_id]))"
proof (intro conjI allI impI)
  assume "py_in woo_order_id (load_completed_orders w) = Inr True"
  then show "save_completed_order woo_order_id w = Inr w"
    by (simp add: save_completed_order_def)
next
  fix w1 w2 :: world
  assume a: "save_completed_order woo_order_id w = Inr w1 \<and> progress_file w2 = progress_file w1"
  then have "py_in woo_order_id (load_completed_orders w2) = Inr True"
    using save_completed_order_present [of woo_order_id w w1]
      load_completed_orders_file [of w2 w1] by simp
  then show "save_completed_order woo_order_id w2 = Inr w2"
    by (simp add: save_completed_order_def)
next
  fix xs
  assume a: "load_completed_orders w = JList xs \<and> \<not> py_in_list woo_order_id xs"
  let ?w1 = "w\<lparr>progress_file :=
                  Parsed (JObj [(''completed_orders'', JList (xs @ [woo_order_id])),
                                (''last_updated'', JFloat (clock w))])\<rparr>"
  have 1: "save_completed_order woo_order_id w = Inr ?w1"
    using a by (simp add: save_completed_order_list)
  have 2: "load_completed_orders ?w1 = JList (xs @ [woo_order_id])"
    by (rule load_completed_orders_written)
  have 3: "save_completed_order woo_order_id ?w1 = Inr ?w1"
    using save_completed_order_list [OF 2, of woo_order_id] by (simp add: py_in_list_self)
  have "filter (py_eq woo_order_id) xs = []"
    using a by (simp add: py_in_list_def list_ex_iff filter_empty_conv)
  then have 4: "length (filter (py_eq woo_order_id) (xs @ [woo_order_id])) = 1"
    by (simp add: py_eq_refl)
  show "\<exists>w1. save_completed_order woo_order_id w = Inr w1
           \<and> save_completed_order woo_order_id w1 = Inr w1
           \<and> load_completed_orders w1 = JList (xs @ [woo_order_id])
           \<and> length (filter (py_eq woo_order_id) (xs @ [woo_order_id])) = 1"
    using 1 2 3 4 by blast
next
  assume a: "progress_file w = NoFile"
  let ?w1 = "w\<lparr>progress_file :=
                  Parsed (JObj [(''completed_orders'', JList [woo_order_id]),
                                (''last_updated'', JFloat (clock w))])\<rparr>"
  have l: "load_completed_orders w = JList []"
    using a by (simp add: load_completed_orders_def)
  have 1: "save_completed_order woo_order_id w = Inr ?w1"
    using save_completed_order_list [OF l, of woo_order_id] by (simp add: py_in_list_def)
  have 2: "load_completed_orders ?w1 = JList [woo_order_id]"
    by (rule load_completed_orders_written)
  have 3: "save_completed_order woo_order_id ?w1 = Inr ?w1"
    using save_completed_order_list [OF 2, of woo_order_id]
    by (simp add: py_in_list_def py_eq_refl)
  show "\<exists>w1. save_completed_order woo_order_id w = Inr w1
           \<and> save_completed_order woo_order_id w1 = Inr w1
           \<and> load_completed_orders w1 = JList [woo_order_id]"
    using 1 2 3 by blast
qed

theorem save_completed_order_idempotent_witness:
  "save_completed_order (JInt 7)
     \<lparr>posted = 0, trace = [], clock = 9,
      progress_file = Parsed (JObj [(''completed_orders'', JList [JInt 3, JInt 7]),
                                    (''last_updated'', JFloat 4)])\<rparr>
   = Inr \<lparr>posted = 0, trace = [], clock = 9,
          progress_file = Parsed (JObj [(''completed_orders'', JList [JInt 3, JInt 7]),
                                        (''last_updated'', JFloat 4)])\<rparr>"
proof -
  have present: "py_in (JInt 7) (load_completed_orders
       \<lparr>posted = 0, trace = [], clock = 9,
        progress_file = Parsed (JObj [(''completed_orders'', JList [JInt 3, JInt 7]),
                                      (''last_updated'', JFloat 4)])\<rparr>) = Inr True"
    by (simp add: load_completed_orders_def py_get_default_def py_in_list_def)
  show ?thesis
    using save_completed_order_idempotent [of "JInt 7"
        "\<lparr>posted = 0, trace = [], clock = 9,
          progress_file = Parsed (JObj [(''completed_orders'', JList [JInt 3, JInt 7]),
                                        (''last_updated'', JFloat 4)])\<rparr>"] present
    by blast
qed

end
